theory Spec2Isabelle
  imports Main "HOL-Library.Word"
begin

section \<open>The video recording controller\<close>

text \<open>
  A shallow embedding of \<^verbatim>\<open>video_recording_controller.cpp\<close>. The controller object is a
  record of its members; everything outside the object (the encoder pipe, the files, the
  standard error stream and the function-local static of \<^verbatim>\<open>update\<close>) is a record of the
  process, threaded through every member function. What the operating system and the
  libraries answer (\<^verbatim>\<open>popen\<close>, \<^verbatim>\<open>pclose\<close>, \<^verbatim>\<open>cnpy::npy_save\<close>, the frame buffer) is an
  argument of each call. Undefined behaviour of the C++ (a null pointer dereferenced, the
  first element of an empty vector) is the result \<open>None\<close>.
\<close>

subsection \<open>Data\<close>

text \<open>A \<^verbatim>\<open>double\<close> is its IEEE-754 bit pattern: the controller only stores and copies it.\<close>

type_synonym double = "64 word"

text \<open>A \<^verbatim>\<open>FILE*\<close> that is not null is the number of the stream; \<open>None\<close> is \<^verbatim>\<open>nullptr\<close>.\<close>

type_synonym FILE = nat

record afCamera =
  getName :: string
  cam_m_width :: int
  cam_m_height :: int

record afWorld =
  getCameras :: "afCamera option list"

record cFrameBuffer =
  fb_width :: int
  fb_height :: int

record cImage =
  getData :: "8 word list"
  getBytesPerPixel :: int

text \<open>
  The members of the class. Pointers are options. The class declaration is in the header,
  which is not among the sources: \<^verbatim>\<open>m_width\<close> and \<^verbatim>\<open>m_height\<close> are integers there, and
  they are unbounded integers here, since the controller only copies and prints them; the
  byte count it hands to \<^verbatim>\<open>fwrite\<close> is their product with the bytes per pixel, recorded as
  that product.
\<close>

record controller =
  m_worldPtr :: "afWorld option"
  m_camera :: "afCamera option"
  m_width :: int
  m_height :: int
  m_frameBuffer :: "cFrameBuffer option"
  m_image :: "cImage option"
  m_saveDirectory :: string
  m_video_filename :: string
  m_timestamps_filename :: string
  m_ffmpeg :: "FILE option"
  m_recorded_timestamps :: "double list"

text \<open>
  The calls that leave the process, in the order they are made: the command given to
  \<^verbatim>\<open>popen\<close>, one \<^verbatim>\<open>fwrite\<close> of a frame (the buffer and the byte count asked for), \<^verbatim>\<open>pclose\<close>,
  \<^verbatim>\<open>cnpy::npy_save\<close> (the file, the array, and whether the call returned rather than threw) and
  \<^verbatim>\<open>cImage::saveToFile\<close>.
\<close>

datatype event =
    Popen string
  | Fwrite FILE "8 word list" int
  | Pclose FILE
  | Npy_save string "double list" bool
  | SaveToFile string

text \<open>
  The process: the trace of those calls, the lines written to \<^verbatim>\<open>cerr\<close>, and
  \<^verbatim>\<open>static bool save_first_frame_img\<close> of \<^verbatim>\<open>update\<close>, which every controller object shares.
\<close>

record proc =
  trace :: "event list"
  cerr :: "string list"
  save_first_frame_img :: bool

text \<open>
  What the surroundings answer during one call: the stream \<^verbatim>\<open>popen\<close> returns for a command
  (\<open>None\<close> when the process cannot be started), the exit status \<^verbatim>\<open>pclose\<close> returns, the
  message of the exception \<^verbatim>\<open>cnpy::npy_save\<close> throws (\<open>None\<close> when it returns), the image
  \<^verbatim>\<open>cImage::create\<close> makes and the image that \<^verbatim>\<open>renderView\<close> and \<^verbatim>\<open>copyImageBuffer\<close> leave
  in \<^verbatim>\<open>m_image\<close>.
\<close>

record env =
  popen :: "string \<Rightarrow> FILE option"
  pclose :: "FILE \<Rightarrow> int"
  npy_save :: "string \<Rightarrow> double list \<Rightarrow> string option"
  cImage_create :: cImage
  copyImageBuffer :: cImage

subsection \<open>\<^verbatim>\<open>std::to_string\<close> of an \<^verbatim>\<open>int\<close>\<close>

definition digit_char :: "nat \<Rightarrow> char" where
  "digit_char d = ''0123456789'' ! d"

function string_of_nat :: "nat \<Rightarrow> string" where
  "string_of_nat n =
     (if n < 10 then [digit_char n]
      else string_of_nat (n div 10) @ [digit_char (n mod 10)])"
  by pat_completeness auto
termination
  by (relation "measure (\<lambda>n. n)") auto

declare string_of_nat.simps [simp del]

definition to_string :: "int \<Rightarrow> string" where
  "to_string i = (if i < 0 then ''-'' @ string_of_nat (nat (- i)) else string_of_nat (nat i))"

subsection \<open>The member functions\<close>

text \<open>
  \<^verbatim>\<open>init\<close>: takes the first camera of the world, copies its resolution, sets up the frame
  buffer and the image, and stores the directory as it is given. There is no check of the
  resolution or of the directory, and the only return statement is \<^verbatim>\<open>return 1\<close>.
\<close>

definition init ::
  "env \<Rightarrow> afWorld option \<Rightarrow> string \<Rightarrow> proc \<times> controller \<Rightarrow> (int \<times> proc \<times> controller) option"
where
  "init e a_afWorld startingDir pc =
     (case pc of (p, c) \<Rightarrow>
       (case a_afWorld of
          None \<Rightarrow> None
        | Some world \<Rightarrow>
           (case getCameras world of
              [] \<Rightarrow> None
            | None # _ \<Rightarrow> None
            | Some cam # _ \<Rightarrow>
                Some (1,
                  p\<lparr>cerr := cerr p @
                      [''INFO! Initializing video recorder plugin variables...'',
                       ''Recording save directory: '' @ startingDir,
                       ''INFO! Variables initialized successfully.'']\<rparr>,
                  c\<lparr>m_worldPtr := Some world,
                    m_camera := Some cam,
                    m_width := cam_m_width cam,
                    m_height := cam_m_height cam,
                    m_frameBuffer :=
                      Some \<lparr>fb_width = cam_m_width cam, fb_height = cam_m_height cam\<rparr>,
                    m_image := Some (cImage_create e),
                    m_saveDirectory := startingDir\<rparr>))))"

text \<open>
  \<^verbatim>\<open>start_recording\<close>: the guard on the camera and the directory, the command line, \<^verbatim>\<open>popen\<close>,
  and the timestamp vector cleared and given its first entry. \<^verbatim>\<open>popen\<close> is a C function: it
  reports failure by returning \<^verbatim>\<open>NULL\<close> and throws nothing, so the \<^verbatim>\<open>catch\<close> block with its
  \<^verbatim>\<open>return -1\<close> is never entered and the result of \<^verbatim>\<open>popen\<close> is stored whatever it is.
\<close>

definition start_recording ::
  "env \<Rightarrow> double \<Rightarrow> proc \<times> controller \<Rightarrow> int \<times> proc \<times> controller"
where
  "start_recording e world_timestamp pc =
     (case pc of (p, c) \<Rightarrow>
       if m_camera c = None \<or> m_saveDirectory c = [] then
         (- 1,
          p\<lparr>cerr := cerr p @
              [''ERROR! Camera or save directory is not initialized. Call init first.'']\<rparr>,
          c)
       else
         let size_str = to_string (m_width c) @ ''x'' @ to_string (m_height c);
             video_filename = m_saveDirectory c @ ''/'' @ ''world.mp4'';
             cmd = ''ffmpeg'' @ '' -r 60'' @ '' -f rawvideo'' @ '' -pix_fmt rgba''
                   @ ('' -s '' @ size_str) @ '' -i -'' @ '' -threads 0'' @ '' -preset fast''
                   @ '' -y'' @ '' -pix_fmt yuv420p'' @ '' -crf 21'' @ '' -vf vflip''
                   @ ('' '' @ video_filename)
         in (1,
             p\<lparr>trace := trace p @ [Popen cmd],
               cerr := cerr p @ [''INFO! Recording started: '' @ video_filename]\<rparr>,
             c\<lparr>m_video_filename := video_filename,
               m_ffmpeg := popen e cmd,
               m_recorded_timestamps := [world_timestamp]\<rparr>))"

text \<open>
  \<^verbatim>\<open>save_timestamps_to_npy\<close>: \<open>Inl\<close> is the \<^verbatim>\<open>runtime_error\<close> it throws when
  \<^verbatim>\<open>cnpy::npy_save\<close> throws.
\<close>

definition save_timestamps_to_npy ::
  "env \<Rightarrow> string \<Rightarrow> double list \<Rightarrow> proc \<Rightarrow> (string + unit) \<times> proc"
where
  "save_timestamps_to_npy e filename timestamps p =
     (case npy_save e filename timestamps of
        None \<Rightarrow>
          (Inr (),
           p\<lparr>trace := trace p @ [Npy_save filename timestamps True],
             cerr := cerr p @ [''INFO! Timestamps saved to: '' @ filename]\<rparr>)
      | Some what \<Rightarrow>
          (Inl (''Failed to save timestamps to .npy file: '' @ what),
           p\<lparr>trace := trace p @ [Npy_save filename timestamps False]\<rparr>))"

text \<open>
  \<^verbatim>\<open>update\<close> returns \<^verbatim>\<open>void\<close>: the result carries \<open>()\<close> and the new state. The frame is rendered
  and copied into the image before the encoder stream is looked at. With no stream the
  function writes one line to \<^verbatim>\<open>cerr\<close> and returns. The calls inside the \<^verbatim>\<open>try\<close> block are
  taken to return, so the handler is not entered.
\<close>

definition update ::
  "env \<Rightarrow> double \<Rightarrow> proc \<times> controller \<Rightarrow> (unit \<times> proc \<times> controller) option"
where
  "update e current_timestamp pc =
     (case pc of (p, c) \<Rightarrow>
       (case m_frameBuffer c of
          None \<Rightarrow> None
        | Some fb \<Rightarrow>
           (case m_image c of
              None \<Rightarrow> None
            | Some old_image \<Rightarrow>
               let img = copyImageBuffer e;
                   c1 = c\<lparr>m_image := Some img\<rparr>
               in (case m_ffmpeg c1 of
                     None \<Rightarrow>
                       Some ((),
                         p\<lparr>cerr := cerr p @
                             [''ERROR! FFmpeg process not initialized. Call start_recording first.'']\<rparr>,
                         c1)
                   | Some f \<Rightarrow>
                       let p1 = p\<lparr>trace := trace p @
                                  [Fwrite f (getData img)
                                     (getBytesPerPixel img * m_width c1 * m_height c1)]\<rparr>;
                           c2 = c1\<lparr>m_recorded_timestamps :=
                                     m_recorded_timestamps c1 @ [current_timestamp]\<rparr>
                       in if save_first_frame_img p1 then
                            (case m_camera c2 of
                               None \<Rightarrow> None
                             | Some cam \<Rightarrow>
                                 let first_frame_filename = getName cam @ ''.png''
                                 in Some ((),
                                      p1\<lparr>trace := trace p1 @ [SaveToFile first_frame_filename],
                                         cerr := cerr p1 @
                                           [''INFO! First frame saved to: '' @ first_frame_filename],
                                         save_first_frame_img := False\<rparr>,
                                      c2))
                          else Some ((), p1, c2)))))"

text \<open>
  \<^verbatim>\<open>close\<close>: with a stream, \<^verbatim>\<open>pclose\<close> (its status is not kept), the member set to
  \<^verbatim>\<open>nullptr\<close>, then the timestamps saved; \<^verbatim>\<open>false\<close> when the save threw. With no stream,
  \<^verbatim>\<open>return true\<close> and nothing else.
\<close>

definition close :: "env \<Rightarrow> proc \<times> controller \<Rightarrow> bool \<times> proc \<times> controller" where
  "close e pc =
     (case pc of (p, c) \<Rightarrow>
       (case m_ffmpeg c of
          None \<Rightarrow> (True, p, c)
        | Some f \<Rightarrow>
            let status = pclose e f;
                p1 = p\<lparr>trace := trace p @ [Pclose f]\<rparr>;
                c1 = c\<lparr>m_ffmpeg := None,
                       m_timestamps_filename :=
                         m_saveDirectory c @ ''/'' @ ''world_timestamps.npy''\<rparr>
            in (case save_timestamps_to_npy e (m_timestamps_filename c1)
                       (m_recorded_timestamps c1) p1 of
                  (Inr u, p2) \<Rightarrow>
                    (True,
                     p2\<lparr>cerr := cerr p2 @
                         [''INFO! Timestamps saved to: '' @ m_timestamps_filename c1,
                          ''INFO! Recording completed and resources released.'']\<rparr>,
                     c1)
                | (Inl what, p2) \<Rightarrow>
                    (False,
                     p2\<lparr>cerr := cerr p2 @ [''ERROR! Failed to save timestamps: '' @ what]\<rparr>,
                     c1))))"

subsection \<open>Callers\<close>

text \<open>
  \<open>updates\<close> is the host's loop: one \<^verbatim>\<open>update\<close> per tick, each with what the surroundings
  answer during that tick and the timestamp handed in.
\<close>

fun updates :: "(env \<times> double) list \<Rightarrow> proc \<times> controller \<Rightarrow> (proc \<times> controller) option" where
  "updates [] pc = Some pc"
| "updates ((e, t) # rest) pc =
     (case update e t pc of
        None \<Rightarrow> None
      | Some (u, pc') \<Rightarrow> updates rest pc')"

text \<open>
  A call of one of the four member functions, and what it returns: \<^verbatim>\<open>int\<close> for \<^verbatim>\<open>init\<close>
  and \<^verbatim>\<open>start_recording\<close>, nothing for \<^verbatim>\<open>update\<close>, \<^verbatim>\<open>bool\<close> for \<^verbatim>\<open>close\<close>.
\<close>

datatype call =
    Init env "afWorld option" string
  | Start_recording env double
  | Update env double
  | Close env

datatype ret = Ret_int int | Ret_void | Ret_bool bool

fun call_on :: "call \<Rightarrow> proc \<times> controller \<Rightarrow> (ret \<times> proc \<times> controller) option" where
  "call_on (Init e a_afWorld startingDir) pc =
     (case init e a_afWorld startingDir pc of
        None \<Rightarrow> None
      | Some (r, pc') \<Rightarrow> Some (Ret_int r, pc'))"
| "call_on (Start_recording e t) pc =
     (case start_recording e t pc of (r, pc') \<Rightarrow> Some (Ret_int r, pc'))"
| "call_on (Update e t) pc =
     (case update e t pc of
        None \<Rightarrow> None
      | Some (u, pc') \<Rightarrow> Some (Ret_void, pc'))"
| "call_on (Close e) pc =
     (case close e pc of (r, pc') \<Rightarrow> Some (Ret_bool r, pc'))"

text \<open>A sequence of calls on one controller object, with the values returned, in order.\<close>

fun calls_on :: "call list \<Rightarrow> proc \<times> controller \<Rightarrow> (ret list \<times> proc \<times> controller) option" where
  "calls_on [] pc = Some ([], pc)"
| "calls_on (k # ks) pc =
     (case call_on k pc of
        None \<Rightarrow> None
      | Some (r, pc') \<Rightarrow>
         (case calls_on ks pc' of
            None \<Rightarrow> None
          | Some (rs, pc'') \<Rightarrow> Some (r # rs, pc'')))"

text \<open>
  A process with any number of controller objects, numbered: each call names the object
  it is made on. The objects share the process, and with it the static of \<^verbatim>\<open>update\<close>.
\<close>

fun run ::
  "(nat \<times> call) list \<Rightarrow> proc \<times> (nat \<Rightarrow> controller) \<Rightarrow> (proc \<times> (nat \<Rightarrow> controller)) option"
where
  "run [] pcs = Some pcs"
| "run ((i, k) # ks) pcs =
     (case pcs of (p, cs) \<Rightarrow>
       (case call_on k (p, cs i) of
          None \<Rightarrow> None
        | Some (r, p', c') \<Rightarrow> run ks (p', cs(i := c'))))"

fun is_SaveToFile :: "event \<Rightarrow> bool" where
  "is_SaveToFile (SaveToFile name) = True"
| "is_SaveToFile (Popen cmd) = False"
| "is_SaveToFile (Fwrite f bytes n) = False"
| "is_SaveToFile (Pclose f) = False"
| "is_SaveToFile (Npy_save name ts ok) = False"

definition first_frame_saves :: "proc \<Rightarrow> nat" where
  "first_frame_saves p = length (filter is_SaveToFile (trace p))"

text \<open>The process as it starts: nothing called yet, and the static at its initialiser \<^verbatim>\<open>true\<close>.\<close>

definition process_start :: proc where
  "process_start = \<lparr>trace = [], cerr = [], save_first_frame_img = True\<rparr>"

text \<open>
  Modelled from the spec: the constructor's body is empty, and the member initialisers are
  in \<^verbatim>\<open>video_recording_controller.h\<close>, which is not among the sources. The spec's data model
  has the encoder handle null outside \<^verbatim>\<open>start\<close>..\<^verbatim>\<open>stop\<close> and the session Uninitialized before
  \<^verbatim>\<open>init\<close>: every pointer null, every string and the timestamp vector empty.
\<close>

definition new_controller :: controller where
  "new_controller =
     \<lparr>m_worldPtr = None, m_camera = None, m_width = 0, m_height = 0,
      m_frameBuffer = None, m_image = None, m_saveDirectory = [],
      m_video_filename = [], m_timestamps_filename = [],
      m_ffmpeg = None, m_recorded_timestamps = []\<rparr>"

subsection \<open>Concrete inputs\<close>

text \<open>
  A world with one camera of 2 by 2 pixels, and surroundings in which everything works:
  \<^verbatim>\<open>popen\<close> returns stream 3, \<^verbatim>\<open>pclose\<close> returns 0, \<^verbatim>\<open>npy_save\<close> returns, and a frame is
  16 bytes of RGBA. The timestamps are the doubles 0.0, 0.016 and 0.033.
\<close>

definition demo_camera :: afCamera where
  "demo_camera = \<lparr>getName = ''main_camera'', cam_m_width = 2, cam_m_height = 2\<rparr>"

definition demo_world :: afWorld where
  "demo_world = \<lparr>getCameras = [Some demo_camera]\<rparr>"

definition demo_frame :: cImage where
  "demo_frame = \<lparr>getData = replicate 16 255, getBytesPerPixel = 4\<rparr>"

definition demo_env :: env where
  "demo_env =
     \<lparr>popen = (\<lambda>cmd. Some 3), pclose = (\<lambda>f. 0), npy_save = (\<lambda>name ts. None),
      cImage_create = \<lparr>getData = [], getBytesPerPixel = 4\<rparr>,
      copyImageBuffer = demo_frame\<rparr>"

definition t_0 :: double where "t_0 = 0"
definition t_1 :: double where "t_1 = 0x3F90624DD2F1A9FC"
definition t_2 :: double where "t_2 = 0x3FA0E5604189374C"

text \<open>
  The states the calls \<^verbatim>\<open>init(world, "/tmp/rec")\<close>, \<^verbatim>\<open>start_recording(0.0)\<close>,
  \<^verbatim>\<open>update(0.016)\<close>, \<^verbatim>\<open>update(0.033)\<close> lead through, from the start of the process and
  a new controller.
\<close>

definition demo_initialized :: "proc \<times> controller" where
  "demo_initialized =
     (\<lparr>trace = [],
       cerr = [''INFO! Initializing video recorder plugin variables...'',
               ''Recording save directory: /tmp/rec'',
               ''INFO! Variables initialized successfully.''],
       save_first_frame_img = True\<rparr>,
      \<lparr>m_worldPtr = Some demo_world, m_camera = Some demo_camera, m_width = 2, m_height = 2,
       m_frameBuffer = Some \<lparr>fb_width = 2, fb_height = 2\<rparr>,
       m_image = Some \<lparr>getData = [], getBytesPerPixel = 4\<rparr>,
       m_saveDirectory = ''/tmp/rec'', m_video_filename = [], m_timestamps_filename = [],
       m_ffmpeg = None, m_recorded_timestamps = []\<rparr>)"

definition demo_cmd :: string where
  "demo_cmd = ''ffmpeg -r 60 -f rawvideo -pix_fmt rgba -s 2x2 -i - -threads 0 -preset fast -y -pix_fmt yuv420p -crf 21 -vf vflip /tmp/rec/world.mp4''"

definition demo_started :: "proc \<times> controller" where
  "demo_started =
     (\<lparr>trace = [Popen demo_cmd],
       cerr = [''INFO! Initializing video recorder plugin variables...'',
               ''Recording save directory: /tmp/rec'',
               ''INFO! Variables initialized successfully.'',
               ''INFO! Recording started: /tmp/rec/world.mp4''],
       save_first_frame_img = True\<rparr>,
      \<lparr>m_worldPtr = Some demo_world, m_camera = Some demo_camera, m_width = 2, m_height = 2,
       m_frameBuffer = Some \<lparr>fb_width = 2, fb_height = 2\<rparr>,
       m_image = Some \<lparr>getData = [], getBytesPerPixel = 4\<rparr>,
       m_saveDirectory = ''/tmp/rec'', m_video_filename = ''/tmp/rec/world.mp4'',
       m_timestamps_filename = [],
       m_ffmpeg = Some 3, m_recorded_timestamps = [t_0]\<rparr>)"

definition demo_recording :: "proc \<times> controller" where
  "demo_recording =
     (\<lparr>trace = [Popen demo_cmd,
                Fwrite 3 (getData demo_frame) 16, SaveToFile ''main_camera.png'',
                Fwrite 3 (getData demo_frame) 16],
       cerr = [''INFO! Initializing video recorder plugin variables...'',
               ''Recording save directory: /tmp/rec'',
               ''INFO! Variables initialized successfully.'',
               ''INFO! Recording started: /tmp/rec/world.mp4'',
               ''INFO! First frame saved to: main_camera.png''],
       save_first_frame_img = False\<rparr>,
      \<lparr>m_worldPtr = Some demo_world, m_camera = Some demo_camera, m_width = 2, m_height = 2,
       m_frameBuffer = Some \<lparr>fb_width = 2, fb_height = 2\<rparr>,
       m_image = Some demo_frame,
       m_saveDirectory = ''/tmp/rec'', m_video_filename = ''/tmp/rec/world.mp4'',
       m_timestamps_filename = [],
       m_ffmpeg = Some 3, m_recorded_timestamps = [t_0, t_1, t_2]\<rparr>)"

text \<open>Surroundings in which the encoder cannot be started: \<^verbatim>\<open>popen\<close> returns \<^verbatim>\<open>NULL\<close>.\<close>

definition no_spawn_env :: env where
  "no_spawn_env = demo_env\<lparr>popen := (\<lambda>cmd. None)\<rparr>"

text \<open>Surroundings in which the array file cannot be written: \<^verbatim>\<open>npy_save\<close> throws.\<close>

definition no_save_env :: env where
  "no_save_env = demo_env\<lparr>npy_save := (\<lambda>name ts. Some ''cannot open file'')\<rparr>"

text \<open>Surroundings in which the encoder exits with status 1.\<close>

definition bad_exit_env :: env where
  "bad_exit_env = demo_env\<lparr>pclose := (\<lambda>f. 1)\<rparr>"

text \<open>A world whose camera has no pixels.\<close>

definition zero_world :: afWorld where
  "zero_world =
     \<lparr>getCameras = [Some \<lparr>getName = ''main_camera'', cam_m_width = 0, cam_m_height = 0\<rparr>]\<rparr>"

text \<open>
  Two controller objects in one process: object 0 records twice, object 1 records once in
  between, five frames in all.
\<close>

definition two_sessions :: "(nat \<times> call) list" where
  "two_sessions =
     [(0, Init demo_env (Some demo_world) ''/tmp/rec''),
      (0, Start_recording demo_env t_0),
      (0, Update demo_env t_1),
      (0, Update demo_env t_2),
      (0, Close demo_env),
      (1, Init demo_env (Some demo_world) ''/tmp/rec2''),
      (1, Start_recording demo_env t_0),
      (1, Update demo_env t_1),
      (0, Start_recording demo_env t_0),
      (0, Update demo_env t_2),
      (1, Update demo_env t_2),
      (1, Close demo_env),
      (0, Close demo_env)]"

section \<open>Properties\<close>

subsection \<open>Evaluation of the concrete inputs\<close>

lemmas demo_defs = demo_initialized_def demo_started_def demo_recording_def demo_cmd_def
  demo_env_def demo_world_def demo_camera_def demo_frame_def process_start_def
  new_controller_def no_spawn_env_def no_save_env_def bad_exit_env_def zero_world_def

lemma to_string_2: "to_string 2 = ''2''"
  by (simp add: to_string_def string_of_nat.simps digit_char_def)

lemma to_string_640: "to_string 640 = ''640''"
  by (simp add: to_string_def string_of_nat.simps digit_char_def)

lemma to_string_480: "to_string 480 = ''480''"
  by (simp add: to_string_def string_of_nat.simps digit_char_def)

lemma to_string_negative: "to_string (- 12) = ''-12''"
  by (simp add: to_string_def string_of_nat.simps digit_char_def)

text \<open>The three states are the ones the calls produce, with the values the calls return.\<close>

lemma demo_init:
  "init demo_env (Some demo_world) ''/tmp/rec'' (process_start, new_controller)
     = Some (1, demo_initialized)"
  by (simp add: init_def demo_defs)

lemma demo_start: "start_recording demo_env t_0 demo_initialized = (1, demo_started)"
  by (simp add: start_recording_def Let_def demo_defs to_string_2)

lemma demo_updates:
  "updates [(demo_env, t_1), (demo_env, t_2)] demo_started = Some demo_recording"
  by (simp add: update_def Let_def demo_defs)

lemma demo_calls:
  "calls_on [Init demo_env (Some demo_world) ''/tmp/rec'', Start_recording demo_env t_0,
             Update demo_env t_1, Update demo_env t_2] (process_start, new_controller)
     = Some ([Ret_int 1, Ret_int 1, Ret_void, Ret_void], demo_recording)"
  by (simp add: init_def start_recording_def update_def Let_def demo_defs to_string_2)

subsection \<open>What each member function keeps\<close>

lemma init_Some:
  assumes "init e w d (p, c) = Some (r, p', c')"
  shows "r = 1" and "m_camera c' \<noteq> None" and "m_frameBuffer c' \<noteq> None"
    and "m_image c' \<noteq> None" and "m_saveDirectory c' = d"
  using assms by (auto simp: init_def split: option.splits list.splits)

lemma start_recording_keeps:
  assumes "start_recording e t (p, c) = (r, p', c')"
  shows "m_camera c' = m_camera c" and "m_frameBuffer c' = m_frameBuffer c"
    and "m_image c' = m_image c"
  using assms by (auto simp: start_recording_def Let_def split: if_splits)

lemma start_recording_1:
  assumes "start_recording e t (p, c) = (1, p', c')"
  shows "m_recorded_timestamps c' = [t]"
  using assms by (auto simp: start_recording_def Let_def split: if_splits)

text \<open>
  With a stream, a frame buffer, an image and a camera, \<^verbatim>\<open>update\<close> returns, appends its
  timestamp and keeps all four.
\<close>

lemma update_live:
  assumes "m_ffmpeg c = Some f" and "m_frameBuffer c \<noteq> None" and "m_image c \<noteq> None"
    and "m_camera c \<noteq> None"
  shows "\<exists>p' c'. update e t (p, c) = Some ((), p', c')
           \<and> m_recorded_timestamps c' = m_recorded_timestamps c @ [t]
           \<and> m_ffmpeg c' = Some f \<and> m_frameBuffer c' = m_frameBuffer c
           \<and> m_image c' \<noteq> None \<and> m_camera c' = m_camera c"
  using assms by (auto simp: update_def Let_def split: option.splits)

lemma updates_live:
  assumes "m_ffmpeg c = Some f" and "m_frameBuffer c \<noteq> None" and "m_image c \<noteq> None"
    and "m_camera c \<noteq> None"
  shows "\<exists>p' c'. updates ets (p, c) = Some (p', c')
           \<and> m_recorded_timestamps c' = m_recorded_timestamps c @ map snd ets
           \<and> m_ffmpeg c' = Some f"
  using assms
proof (induction ets arbitrary: p c)
  case Nil
  then show ?case by simp
next
  case (Cons et ets)
  obtain e t where et: "et = (e, t)" by (cases et)
  from update_live [OF Cons.prems, of e t p]
  obtain p1 c1 where u: "update e t (p, c) = Some ((), p1, c1)"
    and l: "m_recorded_timestamps c1 = m_recorded_timestamps c @ [t]"
    and k: "m_ffmpeg c1 = Some f" "m_frameBuffer c1 \<noteq> None" "m_image c1 \<noteq> None"
      "m_camera c1 \<noteq> None"
    using Cons.prems by auto
  from Cons.IH [OF k, of p1]
  obtain p2 c2 where "updates ets (p1, c1) = Some (p2, c2)"
    and "m_recorded_timestamps c2 = m_recorded_timestamps c1 @ map snd ets"
    and "m_ffmpeg c2 = Some f"
    by blast
  with u l et show ?case by simp
qed

subsection \<open>The timestamp log of a recording\<close>

text \<open>
  Claim C1. After \<^verbatim>\<open>init\<close> has returned, \<^verbatim>\<open>start_recording(t0)\<close> has returned 1 and left a
  live encoder stream, any number of consecutive calls of \<^verbatim>\<open>update\<close> all return, and the
  timestamp vector then holds \<open>t0\<close> followed by the timestamps of the updates in call order:
  one entry more than there were updates. This holds for every camera resolution.
\<close>

theorem timestamp_log_after_updates:
  assumes "init e\<^sub>0 a_afWorld startingDir pc\<^sub>0 = Some (r, pc\<^sub>1)"
    and "start_recording e\<^sub>1 t\<^sub>0 pc\<^sub>1 = (1, pc\<^sub>2)"
    and "m_ffmpeg (snd pc\<^sub>2) \<noteq> None"
  shows "map_option (\<lambda>pc. m_recorded_timestamps (snd pc)) (updates ets pc\<^sub>2)
           = Some (t\<^sub>0 # map snd ets)
         \<and> map_option (\<lambda>pc. length (m_recorded_timestamps (snd pc))) (updates ets pc\<^sub>2)
           = Some (length ets + 1)"
proof -
  obtain p0 c0 where pc0: "pc\<^sub>0 = (p0, c0)" by (cases pc\<^sub>0)
  obtain p1 c1 where pc1: "pc\<^sub>1 = (p1, c1)" by (cases pc\<^sub>1)
  obtain p2 c2 where pc2: "pc\<^sub>2 = (p2, c2)" by (cases pc\<^sub>2)
  from assms(1) have i: "m_camera c1 \<noteq> None" "m_frameBuffer c1 \<noteq> None" "m_image c1 \<noteq> None"
    unfolding pc0 pc1 by (rule init_Some)+
  from assms(2) have s: "m_camera c2 = m_camera c1" "m_frameBuffer c2 = m_frameBuffer c1"
    "m_image c2 = m_image c1"
    unfolding pc1 pc2 by (rule start_recording_keeps)+
  from assms(2) have l: "m_recorded_timestamps c2 = [t\<^sub>0]"
    unfolding pc1 pc2 by (rule start_recording_1)
  from assms(3) obtain f where f: "m_ffmpeg c2 = Some f" unfolding pc2 by auto
  from f i s have "m_frameBuffer c2 \<noteq> None" "m_image c2 \<noteq> None" "m_camera c2 \<noteq> None"
    by simp_all
  from updates_live [OF f this, where p = p2 and ets = ets] l
  show ?thesis unfolding pc2 by auto
qed

text \<open>
  Claim C1, at the concrete session: the three hypotheses hold there, and after the two
  updates the log is the start timestamp and the two update timestamps.
\<close>

theorem timestamp_log_after_updates_witness:
  "init demo_env (Some demo_world) ''/tmp/rec'' (process_start, new_controller)
     = Some (1, demo_initialized)
   \<and> start_recording demo_env t_0 demo_initialized = (1, demo_started)
   \<and> m_ffmpeg (snd demo_started) \<noteq> None
   \<and> map_option (\<lambda>pc. m_recorded_timestamps (snd pc))
        (updates [(demo_env, t_1), (demo_env, t_2)] demo_started) = Some [t_0, t_1, t_2]
   \<and> map_option (\<lambda>pc. length (m_recorded_timestamps (snd pc)))
        (updates [(demo_env, t_1), (demo_env, t_2)] demo_started) = Some 3"
proof -
  have live: "m_ffmpeg (snd demo_started) \<noteq> None"
    by (simp add: demo_started_def)
  from timestamp_log_after_updates [OF demo_init demo_start live,
      of "[(demo_env, t_1), (demo_env, t_2)]"] demo_init demo_start live
  show ?thesis unfolding demo_updates by (simp add: demo_recording_def)
qed

subsection \<open>An encoder that cannot be started\<close>

text \<open>
  Claim C2. The claim asks that a failed spawn makes \<^verbatim>\<open>start_recording\<close> return failure and
  leaves the session as \<^verbatim>\<open>init\<close> left it. The code does not do that. After
  \<^verbatim>\<open>init(world, "/tmp/rec")\<close>, with \<^verbatim>\<open>popen\<close> returning \<^verbatim>\<open>NULL\<close>, \<^verbatim>\<open>start_recording(0.0)\<close>
  returns 1, prints that the recording started, stores the null stream and puts the first
  timestamp into the log: the \<^verbatim>\<open>return -1\<close> written for this case sits in a handler that
  \<^verbatim>\<open>popen\<close> never reaches.
\<close>

theorem start_recording_spawn_failure:
  "start_recording no_spawn_env t_0 demo_initialized =
     (1,
      \<lparr>trace = [Popen demo_cmd],
       cerr = [''INFO! Initializing video recorder plugin variables...'',
               ''Recording save directory: /tmp/rec'',
               ''INFO! Variables initialized successfully.'',
               ''INFO! Recording started: /tmp/rec/world.mp4''],
       save_first_frame_img = True\<rparr>,
      (snd demo_initialized)
        \<lparr>m_video_filename := ''/tmp/rec/world.mp4'', m_ffmpeg := None,
         m_recorded_timestamps := [t_0]\<rparr>)"
  by (simp add: start_recording_def Let_def demo_defs to_string_2)

subsection \<open>\<^verbatim>\<open>update\<close> with no encoder\<close>

text \<open>
  Claim C3 as it is stated does not hold: \<^verbatim>\<open>update\<close> returns \<^verbatim>\<open>void\<close> and throws nothing.
  Called after \<^verbatim>\<open>init\<close> and before \<^verbatim>\<open>start_recording\<close>, with no encoder, it hands its
  caller the same empty value as a call that wrote a frame to a live encoder; no error
  reaches the caller.
\<close>

theorem update_reports_nothing:
  "map_option fst (update demo_env t_1 demo_initialized) = Some ()
   \<and> map_option fst (update demo_env t_1 demo_started) = Some ()"
  by (simp add: update_def Let_def demo_defs)

text \<open>
  Claim C3, amended. Every call of \<^verbatim>\<open>update\<close> made on an initialised controller (frame
  buffer and image set up) while the encoder stream is null returns normally with no value;
  it writes the line \<^verbatim>\<open>ERROR! FFmpeg process not initialized. Call start_recording first.\<close>
  to \<^verbatim>\<open>cerr\<close>, makes no call on the encoder or the files, leaves the stream null and leaves
  the timestamp log unchanged.
\<close>

theorem update_without_encoder:
  assumes "m_ffmpeg c = None" and "m_frameBuffer c \<noteq> None" and "m_image c \<noteq> None"
  shows "\<exists>p' c'. update e t (p, c) = Some ((), p', c')
           \<and> m_recorded_timestamps c' = m_recorded_timestamps c
           \<and> m_ffmpeg c' = None
           \<and> trace p' = trace p
           \<and> cerr p' = cerr p @
                [''ERROR! FFmpeg process not initialized. Call start_recording first.'']"
  using assms by (auto simp: update_def Let_def split: option.splits)

text \<open>
  Claim C3, amended, at the initialised controller on which \<^verbatim>\<open>start_recording\<close> was never
  called: the log stays empty.
\<close>

theorem update_without_encoder_witness:
  "m_ffmpeg (snd demo_initialized) = None \<and> m_frameBuffer (snd demo_initialized) \<noteq> None
   \<and> m_image (snd demo_initialized) \<noteq> None
   \<and> (\<exists>p' c'. update demo_env t_1 (fst demo_initialized, snd demo_initialized)
                  = Some ((), p', c')
           \<and> m_recorded_timestamps c' = []
           \<and> m_ffmpeg c' = None
           \<and> trace p' = []
           \<and> cerr p' = cerr (fst demo_initialized) @
                [''ERROR! FFmpeg process not initialized. Call start_recording first.''])"
proof -
  have h: "m_ffmpeg (snd demo_initialized) = None" "m_frameBuffer (snd demo_initialized) \<noteq> None"
    "m_image (snd demo_initialized) \<noteq> None"
    by (simp_all add: demo_initialized_def)
  have l: "m_recorded_timestamps (snd demo_initialized) = []" "trace (fst demo_initialized) = []"
    by (simp_all add: demo_initialized_def)
  from update_without_encoder [OF h, of demo_env t_1 "fst demo_initialized"] h
  show ?thesis unfolding l by simp
qed

subsection \<open>\<^verbatim>\<open>close\<close>\<close>

text \<open>
  Claim C4. Whenever the encoder stream is null, \<^verbatim>\<open>close\<close> returns \<^verbatim>\<open>true\<close> and changes
  neither the controller nor anything in the process. That is the case before
  \<^verbatim>\<open>start_recording\<close> was ever called, and it is the case for a second \<^verbatim>\<open>close\<close> right after
  any first one, whatever the first one did and returned.
\<close>

theorem close_without_encoder:
  "(m_ffmpeg c = None \<longrightarrow> close e (p, c) = (True, p, c))
   \<and> close e' (snd (close e (p, c))) = (True, snd (close e (p, c)))"
  by (auto simp: close_def save_timestamps_to_npy_def Let_def split: option.splits)

text \<open>
  Claim C4, on a new controller, and for the second \<^verbatim>\<open>close\<close> after a first one that closed
  the recording session and failed to write the timestamps.
\<close>

theorem close_without_encoder_witness:
  "m_ffmpeg new_controller = None
   \<and> close demo_env (process_start, new_controller) = (True, process_start, new_controller)
   \<and> close demo_env (snd (close no_save_env demo_recording))
        = (True, snd (close no_save_env demo_recording))"
  using close_without_encoder [of new_controller demo_env process_start]
    close_without_encoder [of "snd demo_recording" no_save_env "fst demo_recording" demo_env]
  by (simp add: new_controller_def)

text \<open>
  Claim C5 as it is stated does not hold: \<^verbatim>\<open>close\<close> does not clear the timestamp vector.
  After the session with two updates, \<^verbatim>\<open>close\<close> returns \<^verbatim>\<open>true\<close> and the vector still holds
  its three entries.
\<close>

theorem close_keeps_log_counterexample:
  "fst (close demo_env demo_recording) = True
   \<and> m_recorded_timestamps (snd (snd (close demo_env demo_recording))) = [t_0, t_1, t_2]
   \<and> m_recorded_timestamps (snd (snd (close demo_env demo_recording))) \<noteq> []"
  by (simp add: close_def save_timestamps_to_npy_def Let_def demo_defs)

text \<open>
  Claim C5, amended. After every \<^verbatim>\<open>close\<close> of a live recording that returns \<^verbatim>\<open>true\<close>, the
  encoder has been closed and then the whole timestamp log has been written, by a call of
  \<^verbatim>\<open>npy_save\<close> that returned, to \<^verbatim>\<open><saveDirectory>/world_timestamps.npy\<close>; the log in
  memory is left as it was.
\<close>

theorem close_flushes_log:
  assumes "m_ffmpeg c = Some f" and "fst (close e (p, c)) = True"
  shows "trace (fst (snd (close e (p, c)))) =
           trace p @ [Pclose f,
                      Npy_save (m_saveDirectory c @ ''/world_timestamps.npy'')
                        (m_recorded_timestamps c) True]
         \<and> m_recorded_timestamps (snd (snd (close e (p, c)))) = m_recorded_timestamps c"
  using assms
  by (auto simp: close_def save_timestamps_to_npy_def Let_def split: option.splits)

text \<open>Claim C5, amended, at the session with two updates.\<close>

theorem close_flushes_log_witness:
  "m_ffmpeg (snd demo_recording) = Some 3 \<and> fst (close demo_env demo_recording) = True
   \<and> trace (fst (snd (close demo_env demo_recording))) =
        trace (fst demo_recording) @
          [Pclose 3, Npy_save ''/tmp/rec/world_timestamps.npy'' [t_0, t_1, t_2] True]
   \<and> m_recorded_timestamps (snd (snd (close demo_env demo_recording))) = [t_0, t_1, t_2]"
proof -
  have live: "m_ffmpeg (snd demo_recording) = Some 3"
    by (simp add: demo_defs)
  have ok: "fst (close demo_env (fst demo_recording, snd demo_recording)) = True"
    by (simp add: close_def save_timestamps_to_npy_def Let_def demo_defs)
  from close_flushes_log [OF live ok] live ok show ?thesis
    by (simp add: demo_recording_def)
qed

text \<open>
  Claim C6. When \<^verbatim>\<open>close\<close> is called with a live encoder and the write of the timestamps
  fails (\<^verbatim>\<open>npy_save\<close> throws), \<^verbatim>\<open>close\<close> returns \<^verbatim>\<open>false\<close>; the encoder has been closed
  by \<^verbatim>\<open>pclose\<close> before the write was attempted, and the stream member is null afterwards.
\<close>

theorem close_flush_failure:
  assumes "m_ffmpeg c = Some f"
    and "npy_save e (m_saveDirectory c @ ''/world_timestamps.npy'') (m_recorded_timestamps c)
           = Some what"
  shows "fst (close e (p, c)) = False
         \<and> m_ffmpeg (snd (snd (close e (p, c)))) = None
         \<and> trace (fst (snd (close e (p, c)))) =
             trace p @ [Pclose f,
                        Npy_save (m_saveDirectory c @ ''/world_timestamps.npy'')
                          (m_recorded_timestamps c) False]"
  using assms by (simp add: close_def save_timestamps_to_npy_def Let_def)

text \<open>Claim C6, at the session with two updates, when the array file cannot be opened.\<close>

theorem close_flush_failure_witness:
  "m_ffmpeg (snd demo_recording) = Some 3
   \<and> npy_save no_save_env ''/tmp/rec/world_timestamps.npy'' [t_0, t_1, t_2]
        = Some ''cannot open file''
   \<and> fst (close no_save_env demo_recording) = False
   \<and> m_ffmpeg (snd (snd (close no_save_env demo_recording))) = None
   \<and> trace (fst (snd (close no_save_env demo_recording))) =
        trace (fst demo_recording) @
          [Pclose 3, Npy_save ''/tmp/rec/world_timestamps.npy'' [t_0, t_1, t_2] False]"
proof -
  have live: "m_ffmpeg (snd demo_recording) = Some 3"
    by (simp add: demo_defs)
  have fails:
    "npy_save no_save_env (m_saveDirectory (snd demo_recording) @ ''/world_timestamps.npy'')
       (m_recorded_timestamps (snd demo_recording)) = Some ''cannot open file''"
    by (simp add: demo_defs)
  from close_flush_failure [OF live fails, of "fst demo_recording"] live fails show ?thesis
    by (simp add: demo_recording_def)
qed

text \<open>
  Claim C10. With a live encoder, what \<^verbatim>\<open>close\<close> returns is exactly whether the write of
  the timestamps succeeded, and it is the same whatever exit status \<^verbatim>\<open>pclose\<close> returns: a
  failed encoder with a successful write gives \<^verbatim>\<open>true\<close>.
\<close>

theorem close_ignores_exit_status:
  assumes "m_ffmpeg c = Some f"
  shows "fst (close e (p, c)) =
           (npy_save e (m_saveDirectory c @ ''/world_timestamps.npy'') (m_recorded_timestamps c)
              = None)
         \<and> fst (close (e\<lparr>pclose := status\<rparr>) (p, c)) = fst (close e (p, c))"
  using assms
  by (auto simp: close_def save_timestamps_to_npy_def Let_def split: option.splits)

text \<open>
  Claim C10, at the session with two updates, with an encoder that exits with status 1:
  \<^verbatim>\<open>close\<close> returns \<^verbatim>\<open>true\<close>, as it does with status 0.
\<close>

theorem close_ignores_exit_status_witness:
  "m_ffmpeg (snd demo_recording) = Some 3
   \<and> pclose bad_exit_env 3 = 1
   \<and> fst (close bad_exit_env demo_recording) = True
   \<and> fst (close (bad_exit_env\<lparr>pclose := (\<lambda>f. 0)\<rparr>) demo_recording)
        = fst (close bad_exit_env demo_recording)"
proof -
  have live: "m_ffmpeg (snd demo_recording) = Some 3"
    by (simp add: demo_defs)
  from close_ignores_exit_status [OF live, of bad_exit_env "fst demo_recording" "\<lambda>f. 0"] live
  show ?thesis
    by (simp add: demo_defs)
qed

subsection \<open>The encoder command\<close>

text \<open>
  Claim C7. When \<^verbatim>\<open>start_recording\<close> passes its guard, the one command it gives to \<^verbatim>\<open>popen\<close>
  is \<^verbatim>\<open>ffmpeg -r 60 -f rawvideo -pix_fmt rgba -s <W>x<H> -i - -threads 0 -preset fast -y
  -pix_fmt yuv420p -crf 21 -vf vflip <saveDirectory>/world.mp4\<close>, with the controller's width,
  height and save directory; two controllers with the same width, height and save directory
  give the same command, whatever else differs (the process, the surroundings, the
  timestamp).
\<close>

theorem encoder_command:
  "(m_camera c \<noteq> None \<and> m_saveDirectory c \<noteq> [] \<longrightarrow>
      trace (fst (snd (start_recording e t (p, c)))) =
        trace p @
          [Popen (''ffmpeg -r 60 -f rawvideo -pix_fmt rgba -s '' @ to_string (m_width c) @ ''x''
                  @ to_string (m_height c)
                  @ '' -i - -threads 0 -preset fast -y -pix_fmt yuv420p -crf 21 -vf vflip ''
                  @ m_saveDirectory c @ ''/world.mp4'')])
   \<and> (m_camera c \<noteq> None \<and> m_saveDirectory c \<noteq> [] \<and> m_camera c' \<noteq> None
        \<and> m_width c' = m_width c \<and> m_height c' = m_height c
        \<and> m_saveDirectory c' = m_saveDirectory c \<longrightarrow>
      last (trace (fst (snd (start_recording e' t' (p', c')))))
        = last (trace (fst (snd (start_recording e t (p, c))))))"
  by (simp add: start_recording_def Let_def)

text \<open>
  Claim C7, for a resolution of 640 by 480 and the directory \<^verbatim>\<open>/tmp/rec\<close>: the command in
  full, and the same command from a second controller in another state of the process.
\<close>

theorem encoder_command_witness:
  "m_camera (snd demo_initialized) \<noteq> None \<and> m_saveDirectory (snd demo_initialized) \<noteq> []
   \<and> trace (fst (snd (start_recording demo_env t_0
         (fst demo_initialized, (snd demo_initialized)\<lparr>m_width := 640, m_height := 480\<rparr>)))) =
       [Popen ''ffmpeg -r 60 -f rawvideo -pix_fmt rgba -s 640x480 -i - -threads 0 -preset fast -y -pix_fmt yuv420p -crf 21 -vf vflip /tmp/rec/world.mp4'']
   \<and> last (trace (fst (snd (start_recording no_spawn_env t_1
         (fst demo_recording, (snd demo_recording)\<lparr>m_width := 640, m_height := 480\<rparr>)))))
      = last (trace (fst (snd (start_recording demo_env t_0
         (fst demo_initialized, (snd demo_initialized)\<lparr>m_width := 640, m_height := 480\<rparr>)))))"
  using encoder_command [of "(snd demo_initialized)\<lparr>m_width := 640, m_height := 480\<rparr>"
      demo_env t_0 "fst demo_initialized"
      "(snd demo_recording)\<lparr>m_width := 640, m_height := 480\<rparr>" no_spawn_env t_1
      "fst demo_recording"]
  by (simp add: demo_defs to_string_640 to_string_480)

subsection \<open>\<^verbatim>\<open>init\<close>\<close>

text \<open>
  Claim C8 as it is stated does not hold: \<^verbatim>\<open>init\<close> checks nothing. For a camera of 0 by 0
  pixels and the empty string as save directory it returns 1.
\<close>

theorem init_accepts_anything_counterexample:
  "map_option fst (init demo_env (Some zero_world) [] (process_start, new_controller)) = Some 1"
  by (simp add: init_def demo_defs)

text \<open>
  Claim C8, amended. For every world whose first camera exists, whatever its resolution, and
  for every directory string, \<^verbatim>\<open>init\<close> returns 1 and stores that resolution and that string
  in the controller, unchecked.
\<close>

theorem init_always_succeeds:
  assumes "getCameras world = Some cam # cams"
  shows "\<exists>p' c'. init e (Some world) startingDir (p, c) = Some (1, p', c')
           \<and> m_width c' = cam_m_width cam \<and> m_height c' = cam_m_height cam
           \<and> m_saveDirectory c' = startingDir"
  using assms by (simp add: init_def)

text \<open>Claim C8, amended, for the camera of 0 by 0 pixels and the empty directory string.\<close>

theorem init_always_succeeds_witness:
  "getCameras zero_world = [Some \<lparr>getName = ''main_camera'', cam_m_width = 0, cam_m_height = 0\<rparr>]
   \<and> (\<exists>p' c'. init demo_env (Some zero_world) [] (process_start, new_controller)
                  = Some (1, p', c')
           \<and> m_width c' = 0 \<and> m_height c' = 0 \<and> m_saveDirectory c' = [])"
proof -
  have cams: "getCameras zero_world =
      Some \<lparr>getName = ''main_camera'', cam_m_width = 0, cam_m_height = 0\<rparr> # []"
    by (simp add: zero_world_def)
  from init_always_succeeds [OF cams, of demo_env "[]" process_start new_controller] cams
  show ?thesis by simp
qed

subsection \<open>The still image of the first frame\<close>

lemma first_frame_saves_trace [simp]:
  "first_frame_saves (p\<lparr>trace := trace p @ evs\<rparr>)
     = first_frame_saves p + length (filter is_SaveToFile evs)"
  by (simp add: first_frame_saves_def)

lemma first_frame_saves_cerr [simp]:
  "first_frame_saves (p\<lparr>cerr := l\<rparr>) = first_frame_saves p"
  by (simp add: first_frame_saves_def)

lemma first_frame_saves_flag [simp]:
  "first_frame_saves (p\<lparr>save_first_frame_img := b\<rparr>) = first_frame_saves p"
  by (simp add: first_frame_saves_def)

text \<open>Only \<^verbatim>\<open>update\<close> touches the static or saves an image.\<close>

lemma init_saves:
  assumes "init e w d (p, c) = Some (r, p', c')"
  shows "first_frame_saves p' = first_frame_saves p"
    and "save_first_frame_img p' = save_first_frame_img p"
  using assms by (auto simp: init_def split: option.splits list.splits)

lemma start_recording_saves:
  assumes "start_recording e t (p, c) = (r, p', c')"
  shows "first_frame_saves p' = first_frame_saves p"
    and "save_first_frame_img p' = save_first_frame_img p"
  using assms by (auto simp: start_recording_def Let_def first_frame_saves_def split: if_splits)

lemma close_saves:
  assumes "close e (p, c) = (r, p', c')"
  shows "first_frame_saves p' = first_frame_saves p"
    and "save_first_frame_img p' = save_first_frame_img p"
  using assms
  by (auto simp: close_def save_timestamps_to_npy_def Let_def first_frame_saves_def
      split: option.splits)

text \<open>
  An \<^verbatim>\<open>update\<close> either saves nothing and leaves the static alone, or finds the static
  \<^verbatim>\<open>true\<close>, saves one image and sets it to \<^verbatim>\<open>false\<close>.
\<close>

lemma update_saves:
  assumes "update e t (p, c) = Some (u, p', c')"
  shows "first_frame_saves p' = first_frame_saves p
           \<and> save_first_frame_img p' = save_first_frame_img p
         \<or> save_first_frame_img p \<and> first_frame_saves p' = first_frame_saves p + 1
           \<and> \<not> save_first_frame_img p'"
  using assms
  by (auto simp: update_def Let_def first_frame_saves_def split: option.splits if_splits)

text \<open>
  The invariant of the process: no image saved while the static is \<^verbatim>\<open>true\<close>, at most one
  once it is \<^verbatim>\<open>false\<close>.
\<close>

lemma call_on_saves:
  assumes "call_on k (p, c) = Some (r, p', c')"
    and "first_frame_saves p \<le> (if save_first_frame_img p then 0 else 1)"
  shows "first_frame_saves p' \<le> (if save_first_frame_img p' then 0 else 1)"
proof (cases k)
  case (Init e w d)
  with assms(1) obtain r' where "init e w d (p, c) = Some (r', p', c')"
    by (auto split: option.splits)
  from init_saves [OF this] assms(2) show ?thesis by simp
next
  case (Start_recording e t)
  with assms(1) obtain r' where "start_recording e t (p, c) = (r', p', c')"
    by (auto split: prod.splits)
  from start_recording_saves [OF this] assms(2) show ?thesis by simp
next
  case (Update e t)
  with assms(1) obtain u where "update e t (p, c) = Some (u, p', c')"
    by (auto split: option.splits)
  from update_saves [OF this] assms(2) show ?thesis by (auto split: if_splits)
next
  case (Close e)
  with assms(1) obtain r' where "close e (p, c) = (r', p', c')"
    by (auto split: prod.splits)
  from close_saves [OF this] assms(2) show ?thesis by simp
qed

lemma run_saves:
  assumes "run ks (p, cs) = Some (p', cs')"
    and "first_frame_saves p \<le> (if save_first_frame_img p then 0 else 1)"
  shows "first_frame_saves p' \<le> (if save_first_frame_img p' then 0 else 1)"
  using assms
proof (induction ks arbitrary: p cs)
  case Nil
  then show ?case by simp
next
  case (Cons ik ks)
  obtain i k where ik: "ik = (i, k)" by (cases ik)
  from Cons.prems(1) ik obtain r p1 c1 where
    step: "call_on k (p, cs i) = Some (r, p1, c1)"
    and rest: "run ks (p1, cs(i := c1)) = Some (p', cs')"
    by (auto split: option.splits)
  from call_on_saves [OF step Cons.prems(2)]
  have "first_frame_saves p1 \<le> (if save_first_frame_img p1 then 0 else 1)" .
  from Cons.IH [OF rest this] show ?case .
qed

lemma two_sessions_run:
  "\<exists>p cs. run two_sessions (process_start, \<lambda>i. new_controller) = Some (p, cs)
          \<and> first_frame_saves p = 1"
  by (simp add: two_sessions_def init_def start_recording_def update_def close_def
      save_timestamps_to_npy_def Let_def demo_defs first_frame_saves_def)

text \<open>
  Claim C9. In one process, from its start, whatever calls are made on however many
  controller objects, in any order and with any answers from the surroundings, the trace of
  the process holds at most one save of the first-frame image: once one \<^verbatim>\<open>update\<close> has
  saved it, no later \<^verbatim>\<open>update\<close> of any session saves it again.
\<close>

theorem first_frame_saved_at_most_once:
  assumes "run ks (process_start, cs) = Some (p', cs')"
  shows "first_frame_saves p' \<le> 1"
proof -
  have "first_frame_saves process_start \<le> (if save_first_frame_img process_start then 0 else 1)"
    by (simp add: process_start_def first_frame_saves_def)
  from run_saves [OF assms this] show ?thesis by (simp split: if_splits)
qed

text \<open>
  Claim C9, for three recording sessions on two controller objects with five frames
  written: the calls all return and exactly one image has been saved.
\<close>

theorem first_frame_saved_at_most_once_witness:
  "\<exists>p cs. run two_sessions (process_start, \<lambda>i. new_controller) = Some (p, cs)
          \<and> first_frame_saves p = 1 \<and> first_frame_saves p \<le> 1"
proof -
  from two_sessions_run obtain p cs
    where r: "run two_sessions (process_start, \<lambda>i. new_controller) = Some (p, cs)"
      and one: "first_frame_saves p = 1"
    by blast
  from first_frame_saved_at_most_once [OF r] r one show ?thesis by blast
qed

end
